theory Spec2Isabelle
  imports Complex_Main "HOL-Library.AList" "HOL-Library.Char_ord" "HOL-Library.List_Lexorder"
    "HOL-Library.Monad_Syntax"
begin

section \<open>Data model of ultrathink.py\<close>

text \<open>
  Python \<open>str\<close> is modelled by \<open>string\<close>, Python \<open>int\<close> by \<open>int\<close>. A Python
  \<open>float\<close> is modelled by the rational number it denotes: the program only stores,
  compares and serialises floats, it never computes with them. An \<open>Optional\<close> field is
  an \<open>option\<close>. Field names carry a prefix where two classes of the source share a
  field name, or where the source's name is taken in HOL (\<open>id\<close>, \<open>text\<close>).
\<close>

datatype verification = unverified | verified_true | verified_false

record Assumption =
  a_id :: string
  a_text :: string
  a_confidence :: rat
  a_critical :: bool
  a_verifiable :: bool
  a_evidence :: "string option"
  a_verification_status :: "verification option"

definition is_verified :: "Assumption \<Rightarrow> bool" where
  "is_verified a = (a_verification_status a \<in> {Some verified_true, Some verified_false})"

definition is_falsified :: "Assumption \<Rightarrow> bool" where
  "is_falsified a = (a_verification_status a = Some verified_false)"

text \<open>The double nearest to the literal \<open>0.7\<close>, as an exact rational.\<close>

definition float_0_7 :: rat where
  "float_0_7 = 3152519739159347 / 4503599627370496"

definition is_risky :: "Assumption \<Rightarrow> bool" where
  "is_risky a = (a_critical a \<and> a_confidence a < float_0_7
                 \<and> a_verification_status a \<noteq> Some verified_true)"

record Thought =
  thought :: string
  thought_number :: int
  total_thoughts :: int
  next_thought_needed :: bool
  is_revision :: "bool option"
  revises_thought :: "int option"
  branch_from_thought :: "int option"
  branch_id :: "string option"
  needs_more_thoughts :: "bool option"
  confidence :: "rat option"
  uncertainty_notes :: "string option"
  outcome :: "string option"
  assumptions :: "Assumption list option"
  depends_on_assumptions :: "string list option"
  invalidates_assumptions :: "string list option"

text \<open>
  \<open>is_branch\<close> is \<open>bool(self.branch_from_thought and self.branch_id)\<close>: Python's
  truth value of an optional integer (not \<open>None\<close>, not zero) and of an optional string
  (not \<open>None\<close>, not empty).
\<close>

definition is_branch :: "Thought \<Rightarrow> bool" where
  "is_branch t =
     ((case branch_from_thought t of None \<Rightarrow> False | Some n \<Rightarrow> n \<noteq> 0)
      \<and> (case branch_id t of None \<Rightarrow> False | Some b \<Rightarrow> b \<noteq> []))"

definition is_final :: "Thought \<Rightarrow> bool" where
  "is_final t = (\<not> next_thought_needed t)"

definition auto_adjust_total :: "Thought \<Rightarrow> Thought" where
  "auto_adjust_total t = t\<lparr>total_thoughts := max (thought_number t) (total_thoughts t)\<rparr>"

subsection \<open>Errors\<close>

text \<open>
  Every \<open>raise\<close> of the source is one constructor, carrying what its message
  interpolates. \<open>avail\<close> is the text \<open>str(available) if available else "none"\<close>.
  The \<open>ListField\<close> errors are the three \<open>ValueError\<close>s of \<open>_parse_json_list\<close>, with
  the field name. Then come the exceptions of the Python runtime and of pydantic that the
  storage code meets. \<open>IllTypedRecord\<close> is no exception of the source: it marks the one
  place where the typed model stops (see \<open>load_session\<close>).
\<close>

datatype avail = none_marker | listed "string list"

datatype error =
    ReviseNoThoughts int
  | ReviseNotFound int "int list"
  | BranchNoThoughts int
  | BranchNotFound int "int list"
  | DependNotFound string avail
  | TextMismatch string string string
  | CriticalMismatch string bool bool
  | InvalidateNotFound string avail
  | SessionIdEmpty
  | SessionIdTooLong
  | SessionIdInvalid string
  | ListFieldNotAList string
  | ListFieldInvalidJSON string
  | ListFieldBadType string
  | TypeError
  | AttributeError
  | KeyError
  | ValidationError
  | IllTypedRecord

text \<open>The taxonomy of the specification, section 7, over the raise sites.\<close>

datatype error_kind =
    InvalidIdentifier | DanglingReference | UnknownAssumption | ImmutableFieldViolation
  | OtherError

fun kind_of :: "error \<Rightarrow> error_kind" where
  "kind_of (ReviseNoThoughts n) = DanglingReference"
| "kind_of (ReviseNotFound n ns) = DanglingReference"
| "kind_of (BranchNoThoughts n) = DanglingReference"
| "kind_of (BranchNotFound n ns) = DanglingReference"
| "kind_of (DependNotFound a av) = UnknownAssumption"
| "kind_of (InvalidateNotFound a av) = UnknownAssumption"
| "kind_of (TextMismatch a old new) = ImmutableFieldViolation"
| "kind_of (CriticalMismatch a old new) = ImmutableFieldViolation"
| "kind_of SessionIdEmpty = InvalidIdentifier"
| "kind_of SessionIdTooLong = InvalidIdentifier"
| "kind_of (SessionIdInvalid s) = InvalidIdentifier"
| "kind_of (ListFieldNotAList f) = OtherError"
| "kind_of (ListFieldInvalidJSON f) = OtherError"
| "kind_of (ListFieldBadType f) = OtherError"
| "kind_of TypeError = OtherError"
| "kind_of AttributeError = OtherError"
| "kind_of KeyError = OtherError"
| "kind_of ValidationError = OtherError"
| "kind_of IllTypedRecord = OtherError"

subsection \<open>Thought.validate_references\<close>

text \<open>
  \<open>existing_thought_numbers\<close> is a Python set; it is given here as the list of the
  numbers in the log and read as a set: membership, emptiness, and \<open>sorted\<close> (ascending,
  without duplicates). The result is the error raised, or \<open>None\<close> when the method
  returns.
\<close>

definition validate_references :: "Thought \<Rightarrow> int list \<Rightarrow> error option" where
  "validate_references t existing_thought_numbers =
     (if is_revision t = Some True \<and> revises_thought t \<noteq> None
         \<and> the (revises_thought t) \<notin> set existing_thought_numbers
      then (if existing_thought_numbers = []
            then Some (ReviseNoThoughts (the (revises_thought t)))
            else Some (ReviseNotFound (the (revises_thought t))
                         (sort (remdups existing_thought_numbers))))
      else if is_branch t \<and> branch_from_thought t \<noteq> None
         \<and> the (branch_from_thought t) \<notin> set existing_thought_numbers
      then (if existing_thought_numbers = []
            then Some (BranchNoThoughts (the (branch_from_thought t)))
            else Some (BranchNotFound (the (branch_from_thought t))
                         (sort (remdups existing_thought_numbers))))
      else None)"

subsection \<open>ThinkingSession\<close>

text \<open>
  A Python \<open>dict\<close> keeps insertion order, so the two dictionaries of a session are
  association lists: a new key goes to the end, an update keeps the key's place.
  The registry holds Assumption objects by value. In the source the object stored at the
  first declaration of an id is the very object in that thought's list, so a later
  overwrite also shows inside the logged thought; here a logged thought keeps the
  assumptions it was built with. No statement below reads the assumptions of a logged
  thought.
\<close>

record ThinkingSession =
  s_thoughts :: "Thought list"
  s_branches :: "(string \<times> Thought list) list"
  s_assumptions :: "(string \<times> Assumption) list"
  s_unresolved_refs :: "string list"
  s_cross_session_warnings :: "string list"

definition new_session :: ThinkingSession where
  "new_session = \<lparr>s_thoughts = [], s_branches = [], s_assumptions = [],
                  s_unresolved_refs = [], s_cross_session_warnings = []\<rparr>"

definition thought_count :: "ThinkingSession \<Rightarrow> nat" where
  "thought_count s = length (s_thoughts s)"

definition branch_ids :: "ThinkingSession \<Rightarrow> string list" where
  "branch_ids s = map fst (s_branches s)"

definition all_assumptions :: "ThinkingSession \<Rightarrow> (string \<times> Assumption) list" where
  "all_assumptions s = s_assumptions s"

definition risky_assumptions :: "ThinkingSession \<Rightarrow> string list" where
  "risky_assumptions s = map fst (filter (\<lambda>(aid, a). is_risky a) (s_assumptions s))"

definition falsified_assumptions :: "ThinkingSession \<Rightarrow> string list" where
  "falsified_assumptions s = map fst (filter (\<lambda>(aid, a). is_falsified a) (s_assumptions s))"

definition unresolved_references :: "ThinkingSession \<Rightarrow> string list" where
  "unresolved_references s = s_unresolved_refs s"

definition cross_session_warnings :: "ThinkingSession \<Rightarrow> string list" where
  "cross_session_warnings s = s_cross_session_warnings s"

text \<open>\<open>_parse_assumption_id\<close>: split at the first colon, if there is one.\<close>

definition parse_assumption_id :: "string \<Rightarrow> string option \<times> string" where
  "parse_assumption_id assumption_id =
     (if CHR '':'' \<in> set assumption_id
      then (Some (takeWhile (\<lambda>c. c \<noteq> CHR '':'') assumption_id),
            tl (dropWhile (\<lambda>c. c \<noteq> CHR '':'') assumption_id))
      else (None, assumption_id))"

definition available :: "ThinkingSession \<Rightarrow> avail" where
  "available s =
     (let available = sort (map fst (s_assumptions s))
      in if available = [] then none_marker else listed available)"

text \<open>
  The three loops of \<open>add_thought\<close>. Each returns the error raised (or \<open>None\<close>)
  together with the session as the loop left it: what a loop has already written stays
  written when a later entry raises.
\<close>

fun depends_loop ::
  "string list option \<Rightarrow> string list \<Rightarrow> ThinkingSession \<Rightarrow> error option \<times> ThinkingSession"
where
  "depends_loop validated_refs [] s = (None, s)"
| "depends_loop validated_refs (assumption_id # rest) s =
     (case fst (parse_assumption_id assumption_id) of
        None \<Rightarrow>
          if assumption_id \<notin> set (map fst (s_assumptions s))
          then (Some (DependNotFound assumption_id (available s)), s)
          else depends_loop validated_refs rest s
      | Some session_id \<Rightarrow>
          if (case validated_refs of None \<Rightarrow> False
              | Some refs \<Rightarrow> refs \<noteq> [] \<and> assumption_id \<in> set refs)
          then depends_loop validated_refs rest s
          else if assumption_id \<notin> set (s_unresolved_refs s)
          then depends_loop validated_refs rest
                 (s\<lparr>s_unresolved_refs := s_unresolved_refs s @ [assumption_id]\<rparr>)
          else depends_loop validated_refs rest s)"

definition overwrite_mutable :: "Assumption \<Rightarrow> Assumption \<Rightarrow> Assumption" where
  "overwrite_mutable assumption existing =
     existing\<lparr>a_confidence := a_confidence assumption,
              a_verifiable := a_verifiable assumption,
              a_evidence := a_evidence assumption,
              a_verification_status := a_verification_status assumption\<rparr>"

fun assumptions_loop ::
  "Assumption list \<Rightarrow> ThinkingSession \<Rightarrow> error option \<times> ThinkingSession"
where
  "assumptions_loop [] s = (None, s)"
| "assumptions_loop (assumption # rest) s =
     (case map_of (s_assumptions s) (a_id assumption) of
        Some existing \<Rightarrow>
          if a_text existing \<noteq> a_text assumption
          then (Some (TextMismatch (a_id assumption) (a_text existing) (a_text assumption)), s)
          else if a_critical existing \<noteq> a_critical assumption
          then (Some (CriticalMismatch (a_id assumption) (a_critical existing)
                        (a_critical assumption)), s)
          else assumptions_loop rest
                 (s\<lparr>s_assumptions :=
                      AList.map_entry (a_id assumption) (overwrite_mutable assumption)
                        (s_assumptions s)\<rparr>)
      | None \<Rightarrow>
          assumptions_loop rest
            (s\<lparr>s_assumptions := s_assumptions s @ [(a_id assumption, assumption)]\<rparr>))"

definition invalidation_warning :: "string \<Rightarrow> string" where
  "invalidation_warning assumption_id =
     ''Cannot invalidate cross-session assumption '' @ assumption_id
       @ '': cross-session invalidation not supported''"

fun invalidates_loop ::
  "string list \<Rightarrow> ThinkingSession \<Rightarrow> error option \<times> ThinkingSession"
where
  "invalidates_loop [] s = (None, s)"
| "invalidates_loop (assumption_id # rest) s =
     (case fst (parse_assumption_id assumption_id) of
        None \<Rightarrow>
          if assumption_id \<notin> set (map fst (s_assumptions s))
          then (Some (InvalidateNotFound assumption_id (available s)), s)
          else invalidates_loop rest
                 (s\<lparr>s_assumptions :=
                      AList.map_entry assumption_id
                        (\<lambda>a. a\<lparr>a_verification_status := Some verified_false\<rparr>)
                        (s_assumptions s)\<rparr>)
      | Some session_id \<Rightarrow>
          invalidates_loop rest
            (s\<lparr>s_cross_session_warnings :=
                 s_cross_session_warnings s @ [invalidation_warning assumption_id]\<rparr>))"

text \<open>The tail of \<open>add_thought\<close>: the log and the branch index.\<close>

definition append_thought :: "Thought \<Rightarrow> ThinkingSession \<Rightarrow> ThinkingSession" where
  "append_thought t s =
     (let s1 = s\<lparr>s_thoughts := s_thoughts s @ [t]\<rparr>
      in if is_branch t \<and> branch_id t \<noteq> None
         then (let b = the (branch_id t);
                   branches = (if b \<notin> set (map fst (s_branches s1))
                               then s_branches s1 @ [(b, [])] else s_branches s1)
               in s1\<lparr>s_branches := AList.map_entry b (\<lambda>ts. ts @ [t]) branches\<rparr>)
         else s1)"

text \<open>
  Each \<open>if xs: for x in xs: ...\<close> block of \<open>add_thought\<close>: the loop runs when the
  optional list is present and not empty.
\<close>

definition depends_step ::
  "string list option \<Rightarrow> Thought \<Rightarrow> ThinkingSession \<Rightarrow> error option \<times> ThinkingSession"
where
  "depends_step validated_refs t s =
     (case depends_on_assumptions t of
        Some (d # ds) \<Rightarrow> depends_loop validated_refs (d # ds) s
      | _ \<Rightarrow> (None, s))"

definition assumptions_step ::
  "Thought \<Rightarrow> ThinkingSession \<Rightarrow> error option \<times> ThinkingSession"
where
  "assumptions_step t s =
     (case assumptions t of
        Some (a # as) \<Rightarrow> assumptions_loop (a # as) s
      | _ \<Rightarrow> (None, s))"

definition invalidates_step ::
  "Thought \<Rightarrow> ThinkingSession \<Rightarrow> error option \<times> ThinkingSession"
where
  "invalidates_step t s =
     (case invalidates_assumptions t of
        Some (i # is) \<Rightarrow> invalidates_loop (i # is) s
      | _ \<Rightarrow> (None, s))"

text \<open>
  \<open>ThinkingSession.add_thought\<close>: the result is the error raised (or \<open>None\<close>) and
  the session object as the call left it.
\<close>

definition add_thought ::
  "ThinkingSession \<Rightarrow> Thought \<Rightarrow> string list option \<Rightarrow> error option \<times> ThinkingSession"
where
  "add_thought s thought0 validated_cross_session_refs =
     (let t = auto_adjust_total thought0;
          existing_numbers = map thought_number (s_thoughts s)
      in case validate_references t existing_numbers of
           Some e \<Rightarrow> (Some e, s)
         | None \<Rightarrow>
            (case depends_step validated_cross_session_refs t s of
               (Some e, s1) \<Rightarrow> (Some e, s1)
             | (None, s1) \<Rightarrow>
                (case assumptions_step t s1 of
                   (Some e, s2) \<Rightarrow> (Some e, s2)
                 | (None, s2) \<Rightarrow>
                    (case invalidates_step t s2 of
                       (Some e, s3) \<Rightarrow> (Some e, s3)
                     | (None, s3) \<Rightarrow> (None, append_thought t s3)))))"

section \<open>Session storage\<close>

subsection \<open>Session identifiers\<close>

text \<open>
  \<open>_SESSION_ID_PATTERN = re.compile(r"^[a-zA-Z0-9_-]+$")\<close>, applied with \<open>match\<close>.
  The class matches one ASCII letter, digit, underscore or hyphen. \<open>+\<close> takes the
  longest run of such characters from the start of the string, and giving characters back
  cannot help: the character after a shorter run is in the class, so neither the end nor
  a newline. In Python's \<open>re\<close>, \<open>$\<close> without \<open>MULTILINE\<close> matches at the end of the
  string and also just before a newline that is the last character of the string.
\<close>

definition session_id_char :: "char \<Rightarrow> bool" where
  "session_id_char c =
     (c \<in> set (''abcdefghijklmnopqrstuvwxyz'' @ ''ABCDEFGHIJKLMNOPQRSTUVWXYZ''
                 @ ''0123456789'' @ ''_-''))"

definition session_id_pattern_match :: "string \<Rightarrow> bool" where
  "session_id_pattern_match s =
     (let run = takeWhile session_id_char s; rest = dropWhile session_id_char s
      in run \<noteq> [] \<and> (rest = [] \<or> rest = [CHR 0x0A]))"

definition validate_session_id :: "string \<Rightarrow> error option" where
  "validate_session_id session_id =
     (if session_id = [] then Some SessionIdEmpty
      else if length session_id > 128 then Some SessionIdTooLong
      else if \<not> session_id_pattern_match session_id then Some (SessionIdInvalid session_id)
      else None)"

text \<open>
  \<open>_session_file_path\<close>: the name of the session's file inside the sessions directory,
  after the validation.
\<close>

definition session_file_path :: "string \<Rightarrow> error + string" where
  "session_file_path session_id =
     (case validate_session_id session_id of
        Some e \<Rightarrow> Inl e
      | None \<Rightarrow> Inr (session_id @ ''.json''))"

subsection \<open>Python values\<close>

text \<open>
  The values that \<open>json.load\<close> returns and that the constructors of the models receive:
  \<open>None\<close>, booleans, integers, floats, strings, lists and dictionaries with string keys
  (in insertion order), and Assumption objects, which \<open>load_session\<close> puts into a
  thought's arguments.
\<close>

datatype pyval =
    PNone
  | PBool bool
  | PInt int
  | PFloat rat
  | PStr string
  | PList "pyval list"
  | PDict "(string \<times> pyval) list"
  | PObj Assumption

text \<open>Truth value, \<open>hash\<close> (lists, dictionaries and pydantic models have none),
  iteration, \<open>.get\<close> and \<open>.items()\<close>, each as Python has it for these types.\<close>

fun py_truthy :: "pyval \<Rightarrow> bool" where
  "py_truthy PNone = False"
| "py_truthy (PBool b) = b"
| "py_truthy (PInt i) = (i \<noteq> 0)"
| "py_truthy (PFloat f) = (f \<noteq> 0)"
| "py_truthy (PStr s) = (s \<noteq> [])"
| "py_truthy (PList xs) = (xs \<noteq> [])"
| "py_truthy (PDict kvs) = (kvs \<noteq> [])"
| "py_truthy (PObj a) = True"

fun py_hashable :: "pyval \<Rightarrow> bool" where
  "py_hashable (PList xs) = False"
| "py_hashable (PDict kvs) = False"
| "py_hashable (PObj a) = False"
| "py_hashable v = True"

fun py_iter :: "pyval \<Rightarrow> error + pyval list" where
  "py_iter (PList xs) = Inr xs"
| "py_iter (PStr s) = Inr (map (\<lambda>c. PStr [c]) s)"
| "py_iter (PDict kvs) = Inr (map (\<lambda>(k, v). PStr k) kvs)"
| "py_iter v = Inl TypeError"

fun py_get :: "pyval \<Rightarrow> string \<Rightarrow> pyval \<Rightarrow> error + pyval" where
  "py_get (PDict kvs) k dflt = Inr (case map_of kvs k of None \<Rightarrow> dflt | Some v \<Rightarrow> v)"
| "py_get v k dflt = Inl AttributeError"

fun py_items :: "pyval \<Rightarrow> error + (string \<times> pyval) list" where
  "py_items (PDict kvs) = Inr kvs"
| "py_items v = Inl AttributeError"

subsection \<open>_parse_json_list\<close>

text \<open>
  \<open>json.loads\<close> is a parameter, \<open>loads\<close>: \<open>None\<close> is its \<open>JSONDecodeError\<close>.
  The test \<open>value in {"", "null"}\<close> hashes \<open>value\<close>, so it raises \<open>TypeError\<close> for
  a list or a dictionary before the \<open>isinstance(value, list)\<close> branch is reached.
\<close>

definition parse_json_list ::
  "(string \<Rightarrow> pyval option) \<Rightarrow> pyval \<Rightarrow> string \<Rightarrow> error + pyval"
where
  "parse_json_list loads v field_name =
     (if v = PNone then Inr PNone
      else if \<not> py_hashable v then Inl TypeError
      else if v \<in> {PStr [], PStr ''null''} then Inr PNone
      else (case v of
              PList xs \<Rightarrow> Inr v
            | PStr s \<Rightarrow>
                (case loads s of
                   None \<Rightarrow> Inl (ListFieldInvalidJSON field_name)
                 | Some parsed \<Rightarrow>
                     (case parsed of
                        PList ys \<Rightarrow> Inr parsed
                      | _ \<Rightarrow> Inl (ListFieldNotAList field_name)))
            | _ \<Rightarrow> Inl (ListFieldBadType field_name)))"

subsection \<open>The constructors of the pydantic models\<close>

text \<open>
  Both models are strict: a \<open>str\<close> field takes a string, a \<open>bool\<close> field a boolean,
  an \<open>int\<close> field an integer that is no boolean, a \<open>float\<close> field a float or such an
  integer. A reader returns \<open>None\<close> where pydantic records a validation error.
  Keys that name no field are ignored.
\<close>

fun strict_str :: "pyval \<Rightarrow> string option" where
  "strict_str (PStr s) = Some s"
| "strict_str v = None"

fun strict_bool :: "pyval \<Rightarrow> bool option" where
  "strict_bool (PBool b) = Some b"
| "strict_bool v = None"

fun strict_int :: "pyval \<Rightarrow> int option" where
  "strict_int (PInt i) = Some i"
| "strict_int v = None"

fun strict_float :: "pyval \<Rightarrow> rat option" where
  "strict_float (PFloat f) = Some f"
| "strict_float (PInt i) = Some (of_int i)"
| "strict_float v = None"

definition int_ge1 :: "pyval \<Rightarrow> int option" where
  "int_ge1 v = (case strict_int v of Some i \<Rightarrow> if 1 \<le> i then Some i else None | None \<Rightarrow> None)"

definition unit_float :: "pyval \<Rightarrow> rat option" where
  "unit_float v =
     (case strict_float v of
        Some f \<Rightarrow> if 0 \<le> f \<and> f \<le> 1 then Some f else None
      | None \<Rightarrow> None)"

definition nonempty_str :: "pyval \<Rightarrow> string option" where
  "nonempty_str v =
     (case strict_str v of Some s \<Rightarrow> if s \<noteq> [] then Some s else None | None \<Rightarrow> None)"

fun verification_literal :: "pyval \<Rightarrow> verification option" where
  "verification_literal (PStr s) =
     (if s = ''unverified'' then Some unverified
      else if s = ''verified_true'' then Some verified_true
      else if s = ''verified_false'' then Some verified_false
      else None)"
| "verification_literal v = None"

text \<open>
  The pattern of \<open>Assumption.id\<close>, \<open>^(A\d+|[\w-]+:A\d+)$\<close>, read over ASCII: a digit is
  \<open>0\<close> to \<open>9\<close>, a word character a letter, a digit or the underscore. pydantic's
  pattern engine anchors \<open>$\<close> at the very end.
\<close>

definition digit_char :: "char \<Rightarrow> bool" where
  "digit_char c = (c \<in> set ''0123456789'')"

definition word_char :: "char \<Rightarrow> bool" where
  "word_char c =
     (c \<in> set (''abcdefghijklmnopqrstuvwxyz'' @ ''ABCDEFGHIJKLMNOPQRSTUVWXYZ''
                 @ ''0123456789'' @ ''_''))"

definition local_id_match :: "string \<Rightarrow> bool" where
  "local_id_match s =
     (case s of [] \<Rightarrow> False
      | c # ds \<Rightarrow> c = CHR ''A'' \<and> ds \<noteq> [] \<and> list_all digit_char ds)"

definition assumption_id_match :: "string \<Rightarrow> bool" where
  "assumption_id_match s =
     (local_id_match s
      \<or> (let prefix = takeWhile (\<lambda>c. c \<noteq> CHR '':'') s;
              rest = dropWhile (\<lambda>c. c \<noteq> CHR '':'') s
          in prefix \<noteq> [] \<and> list_all (\<lambda>c. word_char c \<or> c = CHR ''-'') prefix
             \<and> rest \<noteq> [] \<and> local_id_match (tl rest)))"

definition id_field :: "pyval \<Rightarrow> string option" where
  "id_field v =
     (case strict_str v of
        Some s \<Rightarrow> if assumption_id_match s then Some s else None
      | None \<Rightarrow> None)"

text \<open>Reading a keyword argument: required, with a default, or optional.\<close>

definition required :: "(string \<times> pyval) list \<Rightarrow> string \<Rightarrow> (pyval \<Rightarrow> 'a option) \<Rightarrow> 'a option"
where
  "required kw k read = (case map_of kw k of None \<Rightarrow> None | Some v \<Rightarrow> read v)"

definition defaulted ::
  "(string \<times> pyval) list \<Rightarrow> string \<Rightarrow> 'a \<Rightarrow> (pyval \<Rightarrow> 'a option) \<Rightarrow> 'a option"
where
  "defaulted kw k d read = (case map_of kw k of None \<Rightarrow> Some d | Some v \<Rightarrow> read v)"

definition or_none :: "(pyval \<Rightarrow> 'a option) \<Rightarrow> pyval \<Rightarrow> 'a option option" where
  "or_none read v = (if v = PNone then Some None else map_option Some (read v))"

definition optional ::
  "(string \<times> pyval) list \<Rightarrow> string \<Rightarrow> (pyval \<Rightarrow> 'a option) \<Rightarrow> 'a option option"
where
  "optional kw k read = defaulted kw k None (or_none read)"

text \<open>\<open>Assumption(**kw)\<close>.\<close>

definition Assumption_init :: "(string \<times> pyval) list \<Rightarrow> error + Assumption" where
  "Assumption_init kw =
     (case do {
         i \<leftarrow> required kw ''id'' id_field;
         txt \<leftarrow> required kw ''text'' nonempty_str;
         conf \<leftarrow> defaulted kw ''confidence'' 1 unit_float;
         crit \<leftarrow> defaulted kw ''critical'' True strict_bool;
         verif \<leftarrow> defaulted kw ''verifiable'' False strict_bool;
         evid \<leftarrow> optional kw ''evidence'' strict_str;
         status \<leftarrow> optional kw ''verification_status'' verification_literal;
         Some \<lparr>a_id = i, a_text = txt, a_confidence = conf, a_critical = crit,
               a_verifiable = verif, a_evidence = evid, a_verification_status = status\<rparr>
       } of
        None \<Rightarrow> Inl ValidationError
      | Some a \<Rightarrow> Inr a)"

text \<open>
  \<open>Assumption(**x)\<close> for any value \<open>x\<close>: unpacking something that is no mapping is a
  \<open>TypeError\<close>.
\<close>

fun Assumption_unpack :: "pyval \<Rightarrow> error + Assumption" where
  "Assumption_unpack (PDict kw) = Assumption_init kw"
| "Assumption_unpack v = Inl TypeError"

text \<open>
  An element of a \<open>list[Assumption]\<close> field: an Assumption object as it is, or a
  dictionary of its fields.
\<close>

fun assumption_element :: "pyval \<Rightarrow> Assumption option" where
  "assumption_element (PObj a) = Some a"
| "assumption_element (PDict kw) =
     (case Assumption_init kw of Inl e \<Rightarrow> None | Inr a \<Rightarrow> Some a)"
| "assumption_element v = None"

fun assumption_list :: "pyval \<Rightarrow> Assumption list option" where
  "assumption_list (PList xs) = those (map assumption_element xs)"
| "assumption_list v = None"

fun str_list :: "pyval \<Rightarrow> string list option" where
  "str_list (PList xs) = those (map strict_str xs)"
| "str_list v = None"

text \<open>
  \<open>_validate_thought_not_empty\<close>: \<open>not value or not value.strip()\<close>. \<open>strip\<close> removes
  the characters for which \<open>str.isspace\<close> holds; among the first 256 code points these
  are 9 to 13, 28 to 32, 133 and 160.
\<close>

definition py_isspace :: "char \<Rightarrow> bool" where
  "py_isspace c =
     (of_char c \<in> set [9, 10, 11, 12, 13, 28, 29, 30, 31, 32, 133, 160 :: nat])"

definition thought_text :: "pyval \<Rightarrow> string option" where
  "thought_text v =
     (case nonempty_str v of
        Some s \<Rightarrow> if list_all py_isspace s then None else Some s
      | None \<Rightarrow> None)"

text \<open>
  A list field of \<open>Thought\<close> first goes through its \<open>mode="before"\<close> validator, when
  the argument is given. A \<open>ValueError\<close> of the validator is a validation error; any
  other exception leaves the constructor as it is.
\<close>

definition before_list ::
  "(string \<Rightarrow> pyval option) \<Rightarrow> (string \<times> pyval) list \<Rightarrow> string \<Rightarrow> error + pyval"
where
  "before_list loads kw k =
     (case map_of kw k of
        None \<Rightarrow> Inr PNone
      | Some v \<Rightarrow> parse_json_list loads v k)"

definition list_field :: "(pyval \<Rightarrow> 'a option) \<Rightarrow> error + pyval \<Rightarrow> 'a option option" where
  "list_field read r = (case r of Inl e \<Rightarrow> None | Inr v \<Rightarrow> or_none read v)"

text \<open>\<open>Thought(**kw)\<close>.\<close>

definition Thought_init ::
  "(string \<Rightarrow> pyval option) \<Rightarrow> (string \<times> pyval) list \<Rightarrow> error + Thought"
where
  "Thought_init loads kw =
     (let pa = before_list loads kw ''assumptions'';
          pd = before_list loads kw ''depends_on_assumptions'';
          pi = before_list loads kw ''invalidates_assumptions''
      in if pa = Inl TypeError \<or> pd = Inl TypeError \<or> pi = Inl TypeError then Inl TypeError
         else
          (case do {
              txt \<leftarrow> required kw ''thought'' thought_text;
              num \<leftarrow> required kw ''thought_number'' int_ge1;
              tot \<leftarrow> required kw ''total_thoughts'' int_ge1;
              nxt \<leftarrow> required kw ''next_thought_needed'' strict_bool;
              rev \<leftarrow> optional kw ''is_revision'' strict_bool;
              revises \<leftarrow> optional kw ''revises_thought'' int_ge1;
              bfrom \<leftarrow> optional kw ''branch_from_thought'' int_ge1;
              bid \<leftarrow> optional kw ''branch_id'' strict_str;
              more \<leftarrow> optional kw ''needs_more_thoughts'' strict_bool;
              conf \<leftarrow> optional kw ''confidence'' unit_float;
              notes \<leftarrow> optional kw ''uncertainty_notes'' strict_str;
              outc \<leftarrow> optional kw ''outcome'' strict_str;
              asms \<leftarrow> list_field assumption_list pa;
              deps \<leftarrow> list_field str_list pd;
              invs \<leftarrow> list_field str_list pi;
              Some \<lparr>thought = txt, thought_number = num, total_thoughts = tot,
                    next_thought_needed = nxt, is_revision = rev, revises_thought = revises,
                    branch_from_thought = bfrom, branch_id = bid, needs_more_thoughts = more,
                    confidence = conf, uncertainty_notes = notes, outcome = outc,
                    assumptions = asms, depends_on_assumptions = deps,
                    invalidates_assumptions = invs\<rparr>
            } of
             None \<Rightarrow> Inl ValidationError
           | Some t \<Rightarrow> Inr t))"

subsection \<open>save_session\<close>

text \<open>
  The sessions directory is an association list from file names to file contents. What
  \<open>json.dump\<close> writes, \<open>json.load\<close> reads back as the same value, so a written file
  holds the value itself; \<open>NotJSON\<close> is a file whose bytes \<open>json.load\<close> rejects.
\<close>

datatype stored = NotJSON | Doc pyval

definition opt_val :: "('a \<Rightarrow> pyval) \<Rightarrow> 'a option \<Rightarrow> pyval" where
  "opt_val f x = (case x of None \<Rightarrow> PNone | Some y \<Rightarrow> f y)"

fun verification_name :: "verification \<Rightarrow> string" where
  "verification_name unverified = ''unverified''"
| "verification_name verified_true = ''verified_true''"
| "verification_name verified_false = ''verified_false''"

text \<open>\<open>Assumption.model_dump()\<close>.\<close>

definition dump_assumption :: "Assumption \<Rightarrow> pyval" where
  "dump_assumption a =
     PDict [(''id'', PStr (a_id a)), (''text'', PStr (a_text a)),
            (''confidence'', PFloat (a_confidence a)), (''critical'', PBool (a_critical a)),
            (''verifiable'', PBool (a_verifiable a)),
            (''evidence'', opt_val PStr (a_evidence a)),
            (''verification_status'',
               opt_val (\<lambda>v. PStr (verification_name v)) (a_verification_status a))]"

definition dump_thought :: "Thought \<Rightarrow> pyval" where
  "dump_thought t =
     PDict [(''thought'', PStr (thought t)),
            (''thought_number'', PInt (thought_number t)),
            (''total_thoughts'', PInt (total_thoughts t)),
            (''next_thought_needed'', PBool (next_thought_needed t)),
            (''is_revision'', opt_val PBool (is_revision t)),
            (''revises_thought'', opt_val PInt (revises_thought t)),
            (''branch_from_thought'', opt_val PInt (branch_from_thought t)),
            (''branch_id'', opt_val PStr (branch_id t)),
            (''needs_more_thoughts'', opt_val PBool (needs_more_thoughts t)),
            (''confidence'', opt_val PFloat (confidence t)),
            (''uncertainty_notes'', opt_val PStr (uncertainty_notes t)),
            (''outcome'', opt_val PStr (outcome t)),
            (''assumptions'',
               (case assumptions t of
                  Some (a # as) \<Rightarrow> PList (map dump_assumption (a # as))
                | _ \<Rightarrow> PNone)),
            (''depends_on_assumptions'',
               opt_val (\<lambda>ds. PList (map PStr ds)) (depends_on_assumptions t)),
            (''invalidates_assumptions'',
               opt_val (\<lambda>ds. PList (map PStr ds)) (invalidates_assumptions t))]"

definition session_data :: "ThinkingSession \<Rightarrow> pyval" where
  "session_data session =
     PDict [(''thoughts'', PList (map dump_thought (s_thoughts session))),
            (''assumptions'',
               PDict (map (\<lambda>(aid, a). (aid, dump_assumption a)) (s_assumptions session))),
            (''branches'',
               PDict (map (\<lambda>(bid, thoughts). (bid, PList (map (\<lambda>t. PInt (thought_number t)) thoughts)))
                        (s_branches session))),
            (''unresolved_refs'', PList (map PStr (s_unresolved_refs session))),
            (''cross_session_warnings'',
               PList (map PStr (s_cross_session_warnings session)))]"

definition save_session ::
  "(string \<times> stored) list \<Rightarrow> string \<Rightarrow> ThinkingSession \<Rightarrow> error + (string \<times> stored) list"
where
  "save_session files session_id session =
     (let data = session_data session
      in case session_file_path session_id of
           Inl e \<Rightarrow> Inl e
         | Inr file_path \<Rightarrow> Inr (AList.update file_path (Doc data) files))"

subsection \<open>load_session\<close>

fun load_assumptions ::
  "(string \<times> pyval) list \<Rightarrow> ThinkingSession \<Rightarrow> error + ThinkingSession"
where
  "load_assumptions [] session = Inr session"
| "load_assumptions ((aid, assumption_data) # rest) session =
     (case Assumption_unpack assumption_data of
        Inl e \<Rightarrow> Inl e
      | Inr a \<Rightarrow>
          load_assumptions rest
            (session\<lparr>s_assumptions := AList.update aid a (s_assumptions session)\<rparr>))"

fun build_assumptions :: "pyval list \<Rightarrow> error + Assumption list" where
  "build_assumptions [] = Inr []"
| "build_assumptions (a # rest) =
     (case Assumption_unpack a of
        Inl e \<Rightarrow> Inl e
      | Inr x \<Rightarrow> (case build_assumptions rest of Inl e \<Rightarrow> Inl e | Inr xs \<Rightarrow> Inr (x # xs)))"

text \<open>
  The first statement of the thoughts loop: when \<open>thought_data.get("assumptions")\<close> is
  true, the entry is replaced by the list of the Assumption objects built from it.
\<close>

definition rebuild_assumptions :: "pyval \<Rightarrow> error + (string \<times> pyval) list" where
  "rebuild_assumptions thought_data =
     (case py_get thought_data ''assumptions'' PNone of
        Inl e \<Rightarrow> Inl e
      | Inr v \<Rightarrow>
          (case py_items thought_data of
             Inl e \<Rightarrow> Inl e
           | Inr kw \<Rightarrow>
               if py_truthy v
               then (case py_iter v of
                       Inl e \<Rightarrow> Inl e
                     | Inr elems \<Rightarrow>
                         (case build_assumptions elems of
                            Inl e \<Rightarrow> Inl e
                          | Inr objs \<Rightarrow>
                              Inr (AList.update ''assumptions'' (PList (map PObj objs)) kw)))
               else Inr kw))"

definition load_append :: "Thought \<Rightarrow> ThinkingSession \<Rightarrow> ThinkingSession" where
  "load_append t s =
     (let s1 = s\<lparr>s_thoughts := s_thoughts s @ [t]\<rparr>
      in if is_branch t \<and> (case branch_id t of None \<Rightarrow> False | Some b \<Rightarrow> b \<noteq> [])
         then (let b = the (branch_id t);
                   branches = (if b \<notin> set (map fst (s_branches s1))
                               then s_branches s1 @ [(b, [])] else s_branches s1)
               in s1\<lparr>s_branches := AList.map_entry b (\<lambda>ts. ts @ [t]) branches\<rparr>)
         else s1)"

fun load_thoughts ::
  "(string \<Rightarrow> pyval option) \<Rightarrow> pyval list \<Rightarrow> ThinkingSession \<Rightarrow> error + ThinkingSession"
where
  "load_thoughts loads [] session = Inr session"
| "load_thoughts loads (thought_data # rest) session =
     (case rebuild_assumptions thought_data of
        Inl e \<Rightarrow> Inl e
      | Inr kw \<Rightarrow>
          (case Thought_init loads kw of
             Inl e \<Rightarrow> Inl e
           | Inr t \<Rightarrow> load_thoughts loads rest (load_append t session)))"

text \<open>
  The body of the second \<open>try\<close>. The last two assignments store whatever the record
  holds; the session of the model has lists of strings there, and a record that holds
  anything else ends the model with \<open>IllTypedRecord\<close>.
\<close>

definition reconstruct ::
  "(string \<Rightarrow> pyval option) \<Rightarrow> pyval \<Rightarrow> error + ThinkingSession"
where
  "reconstruct loads data =
     (case py_get data ''assumptions'' (PDict []) of
        Inl e \<Rightarrow> Inl e
      | Inr asms \<Rightarrow>
     (case py_items asms of
        Inl e \<Rightarrow> Inl e
      | Inr items \<Rightarrow>
     (case load_assumptions items new_session of
        Inl e \<Rightarrow> Inl e
      | Inr s1 \<Rightarrow>
     (case py_get data ''thoughts'' (PList []) of
        Inl e \<Rightarrow> Inl e
      | Inr ths \<Rightarrow>
     (case py_iter ths of
        Inl e \<Rightarrow> Inl e
      | Inr thought_datas \<Rightarrow>
     (case load_thoughts loads thought_datas s1 of
        Inl e \<Rightarrow> Inl e
      | Inr s2 \<Rightarrow>
     (case py_get data ''unresolved_refs'' (PList []) of
        Inl e \<Rightarrow> Inl e
      | Inr refs \<Rightarrow>
     (case py_get data ''cross_session_warnings'' (PList []) of
        Inl e \<Rightarrow> Inl e
      | Inr warnings \<Rightarrow>
     (case (str_list refs, str_list warnings) of
        (Some rs, Some ws) \<Rightarrow>
          Inr (s2\<lparr>s_unresolved_refs := rs, s_cross_session_warnings := ws\<rparr>)
      | _ \<Rightarrow> Inl IllTypedRecord)))))))))"

text \<open>
  \<open>load_session\<close>: \<open>Inl\<close> is an exception that leaves the function, \<open>Inr None\<close> the
  return of \<open>None\<close>. The second \<open>try\<close> catches \<open>KeyError\<close>, \<open>TypeError\<close> and
  \<open>ValidationError\<close>.
\<close>

definition load_session ::
  "(string \<Rightarrow> pyval option) \<Rightarrow> (string \<times> stored) list \<Rightarrow> string
     \<Rightarrow> error + ThinkingSession option"
where
  "load_session loads files session_id =
     (case session_file_path session_id of
        Inl e \<Rightarrow> Inl e
      | Inr file_path \<Rightarrow>
          (case map_of files file_path of
             None \<Rightarrow> Inr None
           | Some NotJSON \<Rightarrow> Inr None
           | Some (Doc data) \<Rightarrow>
               (case reconstruct loads data of
                  Inl e \<Rightarrow> if e \<in> {KeyError, TypeError, ValidationError} then Inr None
                           else Inl e
                | Inr session \<Rightarrow> Inr (Some session))))"

section \<open>UltraThinkService\<close>

record ThoughtRequest =
  r_thought :: string
  r_total_thoughts :: int
  r_next_thought_needed :: "bool option"
  r_thought_number :: "int option"
  r_session_id :: "string option"
  r_is_revision :: "bool option"
  r_revises_thought :: "int option"
  r_branch_from_thought :: "int option"
  r_branch_id :: "string option"
  r_needs_more_thoughts :: "bool option"
  r_confidence :: "rat option"
  r_uncertainty_notes :: "string option"
  r_outcome :: "string option"
  r_assumptions :: "Assumption list option"
  r_depends_on_assumptions :: "string list option"
  r_invalidates_assumptions :: "string list option"

record ThoughtResponse =
  resp_session_id :: string
  resp_thought_number :: int
  resp_total_thoughts :: int
  resp_next_thought_needed :: bool
  resp_branches :: "string list"
  resp_thought_history_length :: nat
  resp_confidence :: "rat option"
  resp_uncertainty_notes :: "string option"
  resp_outcome :: "string option"
  resp_all_assumptions :: "(string \<times> Assumption) list"
  resp_risky_assumptions :: "string list"
  resp_falsified_assumptions :: "string list"
  resp_unresolved_references :: "string list"
  resp_cross_session_warnings :: "string list"

text \<open>
  The state of a service is its dictionary \<open>_sessions\<close>, here \<open>cache\<close>; the sessions
  directory is \<open>files\<close>. A session object taken from the cache and changed by
  \<open>add_thought\<close> is the cached object, so the model writes the changed session back under
  its id. \<open>uuid.uuid4()\<close> is the parameter \<open>new_id\<close>.
\<close>

definition get_or_create_session ::
  "(string \<Rightarrow> pyval option) \<Rightarrow> string \<Rightarrow> (string \<times> ThinkingSession) list
     \<Rightarrow> (string \<times> stored) list \<Rightarrow> string option
     \<Rightarrow> error + (string \<times> ThinkingSession \<times> (string \<times> ThinkingSession) list)"
where
  "get_or_create_session loads new_id cache files session_id =
     (case session_id of
        None \<Rightarrow> Inr (new_id, new_session, AList.update new_id new_session cache)
      | Some sid \<Rightarrow>
          (case map_of cache sid of
             Some session \<Rightarrow> Inr (sid, session, cache)
           | None \<Rightarrow>
               (case load_session loads files sid of
                  Inl e \<Rightarrow> Inl e
                | Inr (Some loaded_session) \<Rightarrow>
                    Inr (sid, loaded_session, AList.update sid loaded_session cache)
                | Inr None \<Rightarrow>
                    Inr (sid, new_session, AList.update sid new_session cache))))"

text \<open>
  \<open>_resolve_cross_session_assumption\<close>: the pair it returns, and the cache after the
  call. An exception of \<open>load_session\<close> leaves the cache as it was.
\<close>

definition resolve_cross_session_assumption ::
  "(string \<Rightarrow> pyval option) \<Rightarrow> (string \<times> ThinkingSession) list
     \<Rightarrow> (string \<times> stored) list \<Rightarrow> string
     \<Rightarrow> error + ((string option \<times> bool) \<times> (string \<times> ThinkingSession) list)"
where
  "resolve_cross_session_assumption loads cache files scoped_id =
     (case parse_assumption_id scoped_id of
        (None, local_id) \<Rightarrow> Inr ((Some scoped_id, True), cache)
      | (Some target_session_id, local_id) \<Rightarrow>
          (case (case map_of cache target_session_id of
                   Some cached \<Rightarrow> Inr (Some cache)
                 | None \<Rightarrow>
                     (case load_session loads files target_session_id of
                        Inl e \<Rightarrow> Inl e
                      | Inr (Some target_session) \<Rightarrow>
                          Inr (Some (AList.update target_session_id target_session cache))
                      | Inr None \<Rightarrow> Inr None)) of
             Inl e \<Rightarrow> Inl e
           | Inr None \<Rightarrow> Inr ((None, False), cache)
           | Inr (Some cache1) \<Rightarrow>
               (case map_of cache1 target_session_id of
                  None \<Rightarrow> Inl KeyError
                | Some target_session \<Rightarrow>
                    if local_id \<notin> set (map fst (all_assumptions target_session))
                    then Inr ((None, False), cache1)
                    else Inr ((Some local_id, True), cache1))))"

text \<open>The loop of \<open>process_thought\<close> over the request's dependencies.\<close>

fun resolve_loop ::
  "(string \<Rightarrow> pyval option) \<Rightarrow> (string \<times> stored) list \<Rightarrow> string list \<Rightarrow> string list
     \<Rightarrow> (string \<times> ThinkingSession) list
     \<Rightarrow> (error + string list) \<times> (string \<times> ThinkingSession) list"
where
  "resolve_loop loads files [] validated cache = (Inr validated, cache)"
| "resolve_loop loads files (assumption_id # rest) validated cache =
     (if CHR '':'' \<in> set assumption_id
      then (case resolve_cross_session_assumption loads cache files assumption_id of
              Inl e \<Rightarrow> (Inl e, cache)
            | Inr ((resolved_id, was_resolved), cache1) \<Rightarrow>
                resolve_loop loads files rest
                  (if was_resolved then validated @ [assumption_id] else validated) cache1)
      else resolve_loop loads files rest validated cache)"

text \<open>
  \<open>request.model_dump(exclude={"session_id"})\<close> with the two entries
  \<open>process_thought\<close> overwrites.
\<close>

definition thought_data ::
  "ThoughtRequest \<Rightarrow> int \<Rightarrow> bool \<Rightarrow> (string \<times> pyval) list"
where
  "thought_data request n nxt =
     [(''thought'', PStr (r_thought request)),
      (''total_thoughts'', PInt (r_total_thoughts request)),
      (''next_thought_needed'', PBool nxt),
      (''thought_number'', PInt n),
      (''is_revision'', opt_val PBool (r_is_revision request)),
      (''revises_thought'', opt_val PInt (r_revises_thought request)),
      (''branch_from_thought'', opt_val PInt (r_branch_from_thought request)),
      (''branch_id'', opt_val PStr (r_branch_id request)),
      (''needs_more_thoughts'', opt_val PBool (r_needs_more_thoughts request)),
      (''confidence'', opt_val PFloat (r_confidence request)),
      (''uncertainty_notes'', opt_val PStr (r_uncertainty_notes request)),
      (''outcome'', opt_val PStr (r_outcome request)),
      (''assumptions'',
         opt_val (\<lambda>as. PList (map dump_assumption as)) (r_assumptions request)),
      (''depends_on_assumptions'',
         opt_val (\<lambda>ds. PList (map PStr ds)) (r_depends_on_assumptions request)),
      (''invalidates_assumptions'',
         opt_val (\<lambda>ds. PList (map PStr ds)) (r_invalidates_assumptions request))]"

definition response ::
  "string \<Rightarrow> Thought \<Rightarrow> ThinkingSession \<Rightarrow> ThoughtResponse"
where
  "response session_id t session =
     \<lparr>resp_session_id = session_id,
      resp_thought_number = thought_number t,
      resp_total_thoughts = total_thoughts t,
      resp_next_thought_needed = next_thought_needed t,
      resp_branches = branch_ids session,
      resp_thought_history_length = thought_count session,
      resp_confidence = confidence t,
      resp_uncertainty_notes = uncertainty_notes t,
      resp_outcome = outcome t,
      resp_all_assumptions = all_assumptions session,
      resp_risky_assumptions = risky_assumptions session,
      resp_falsified_assumptions = falsified_assumptions session,
      resp_unresolved_references = unresolved_references session,
      resp_cross_session_warnings = cross_session_warnings session\<rparr>"

text \<open>
  \<open>process_thought\<close>: what it returns or raises, with the cache and the files as the
  call leaves them. \<open>add_thought\<close> adjusts the total of the thought object in place, so
  the response reads the adjusted thought.
\<close>

definition process_thought ::
  "(string \<Rightarrow> pyval option) \<Rightarrow> string \<Rightarrow> (string \<times> ThinkingSession) list
     \<Rightarrow> (string \<times> stored) list \<Rightarrow> ThoughtRequest
     \<Rightarrow> (error + ThoughtResponse) \<times> (string \<times> ThinkingSession) list
         \<times> (string \<times> stored) list"
where
  "process_thought loads new_id cache files request =
     (case get_or_create_session loads new_id cache files (r_session_id request) of
        Inl e \<Rightarrow> (Inl e, cache, files)
      | Inr (session_id, session, cache1) \<Rightarrow>
     (let n = (case r_thought_number request of
                 None \<Rightarrow> int (thought_count session) + 1
               | Some k \<Rightarrow> k);
          nxt = (case r_next_thought_needed request of
                   None \<Rightarrow> n < r_total_thoughts request
                 | Some b \<Rightarrow> b)
      in case (case r_depends_on_assumptions request of
                 Some (d # ds) \<Rightarrow> resolve_loop loads files (d # ds) [] cache1
               | _ \<Rightarrow> (Inr [], cache1)) of
           (Inl e, cache2) \<Rightarrow> (Inl e, cache2, files)
         | (Inr validated_cross_session_refs, cache2) \<Rightarrow>
     (case Thought_init loads (thought_data request n nxt) of
        Inl e \<Rightarrow> (Inl e, cache2, files)
      | Inr t \<Rightarrow>
     (case add_thought session t (Some validated_cross_session_refs) of
        (Some e, session1) \<Rightarrow> (Inl e, AList.update session_id session1 cache2, files)
      | (None, session1) \<Rightarrow>
     (case save_session files session_id session1 of
        Inl e \<Rightarrow> (Inl e, AList.update session_id session1 cache2, files)
      | Inr files1 \<Rightarrow>
          (Inr (response session_id (auto_adjust_total t) session1),
           AList.update session_id session1 cache2, files1))))))"

section \<open>Concrete objects and auxiliary predicates\<close>

text \<open>
  \<open>Thought(thought=..., thought_number=..., total_thoughts=..., next_thought_needed=...)\<close>
  and \<open>Assumption(id=..., text=...)\<close> with every other field at the default the class
  declares.
\<close>

definition mk_thought :: "string \<Rightarrow> int \<Rightarrow> int \<Rightarrow> bool \<Rightarrow> Thought" where
  "mk_thought txt n tot nxt =
     \<lparr>thought = txt, thought_number = n, total_thoughts = tot, next_thought_needed = nxt,
      is_revision = None, revises_thought = None, branch_from_thought = None,
      branch_id = None, needs_more_thoughts = None, confidence = None,
      uncertainty_notes = None, outcome = None, assumptions = None,
      depends_on_assumptions = None, invalidates_assumptions = None\<rparr>"

definition mk_assumption :: "string \<Rightarrow> string \<Rightarrow> Assumption" where
  "mk_assumption i txt =
     \<lparr>a_id = i, a_text = txt, a_confidence = 1, a_critical = True, a_verifiable = False,
      a_evidence = None, a_verification_status = None\<rparr>"

definition demo_t1 :: Thought where
  "demo_t1 = (mk_thought ''T1'' 1 3 True)\<lparr>assumptions := Some [mk_assumption ''A1'' ''x'']\<rparr>"

definition demo_s1 :: ThinkingSession where
  "demo_s1 = snd (add_thought new_session demo_t1 None)"


definition demo_revision :: Thought where
  "demo_revision = (mk_thought ''R'' 1 3 True)\<lparr>is_revision := Some True, revises_thought := Some 1\<rparr>"

definition demo_branch_missing :: Thought where
  "demo_branch_missing =
     (mk_thought ''B'' 2 3 True)\<lparr>branch_from_thought := Some 5, branch_id := Some ''alt''\<rparr>"

definition demo_branch_ok :: Thought where
  "demo_branch_ok =
     (mk_thought ''B'' 2 3 True)\<lparr>branch_from_thought := Some 1, branch_id := Some ''alt''\<rparr>"

definition demo_unflagged :: Thought where
  "demo_unflagged = (mk_thought ''U'' 2 3 True)\<lparr>revises_thought := Some 7\<rparr>"

definition demo_half_branch :: Thought where
  "demo_half_branch = (mk_thought ''H'' 2 3 True)\<lparr>branch_from_thought := Some 7\<rparr>"








definition newline_id :: string where
  "newline_id = ''abc'' @ [CHR 0x0A]"

definition demo_dep :: Thought where
  "demo_dep = (mk_thought ''T1'' 1 1 False)\<lparr>depends_on_assumptions := Some [''other:A1'']\<rparr>"

definition demo_s_dep :: ThinkingSession where
  "demo_s_dep = snd (add_thought new_session demo_dep None)"

definition demo_files :: "(string \<times> stored) list" where
  "demo_files = [(''s1.json'', Doc (session_data demo_s_dep))]"

definition not_a_list_files :: "(string \<times> stored) list" where
  "not_a_list_files = [(''invalid.json'', Doc (PDict [(''thoughts'', PStr ''not_a_list'')]))]"

definition list_registry_files :: "(string \<times> stored) list" where
  "list_registry_files = [(''invalid.json'', Doc (PDict [(''assumptions'', PList [])]))]"

text \<open>The thought number \<open>process_thought\<close> works with.\<close>

definition assigned_number :: "ThoughtRequest \<Rightarrow> ThinkingSession \<Rightarrow> int" where
  "assigned_number request session =
     (case r_thought_number request of
        None \<Rightarrow> int (thought_count session) + 1
      | Some k \<Rightarrow> k)"

text \<open>\<open>ThoughtRequest(thought=..., total_thoughts=...)\<close>, every other field at its default.\<close>

definition mk_request :: "string \<Rightarrow> int \<Rightarrow> ThoughtRequest" where
  "mk_request txt tot =
     \<lparr>r_thought = txt, r_total_thoughts = tot, r_next_thought_needed = None,
      r_thought_number = None, r_session_id = None, r_is_revision = None,
      r_revises_thought = None, r_branch_from_thought = None, r_branch_id = None,
      r_needs_more_thoughts = None, r_confidence = None, r_uncertainty_notes = None,
      r_outcome = None, r_assumptions = None, r_depends_on_assumptions = None,
      r_invalidates_assumptions = None\<rparr>"

definition demo_request :: ThoughtRequest where
  "demo_request = mk_request ''First'' 3"

definition demo_request_explicit :: ThoughtRequest where
  "demo_request_explicit =
     (mk_request ''Test'' 5)\<lparr>r_thought_number := Some 3, r_next_thought_needed := Some False\<rparr>"






section \<open>Verification\<close>

subsection \<open>What each step of add_thought leaves alone\<close>

lemma depends_loop_frame:
  "depends_loop v ds s = (r, s') \<Longrightarrow>
     s_thoughts s' = s_thoughts s \<and> s_branches s' = s_branches s
     \<and> s_assumptions s' = s_assumptions s
     \<and> s_cross_session_warnings s' = s_cross_session_warnings s"
proof (induction ds arbitrary: s)
  case Nil
  then show ?case by simp
next
  case (Cons d ds)
  then show ?case
    by (auto split: option.splits if_splits)
qed

lemma depends_loop_error_kind:
  "depends_loop v ds s = (Some e, s') \<Longrightarrow> kind_of e = UnknownAssumption"
proof (induction ds arbitrary: s)
  case Nil
  then show ?case by simp
next
  case (Cons d ds)
  then show ?case
    by (auto split: option.splits if_splits)
qed

lemma assumptions_loop_frame:
  "assumptions_loop as s = (r, s') \<Longrightarrow>
     s_thoughts s' = s_thoughts s \<and> s_branches s' = s_branches s
     \<and> s_unresolved_refs s' = s_unresolved_refs s
     \<and> s_cross_session_warnings s' = s_cross_session_warnings s"
proof (induction as arbitrary: s)
  case Nil
  then show ?case by simp
next
  case (Cons a as)
  then show ?case
    by (auto split: option.splits if_splits)
qed

lemma assumptions_loop_error_kind:
  "assumptions_loop as s = (Some e, s') \<Longrightarrow> kind_of e = ImmutableFieldViolation"
proof (induction as arbitrary: s)
  case Nil
  then show ?case by simp
next
  case (Cons a as)
  then show ?case
    by (auto split: option.splits if_splits)
qed

lemma invalidates_loop_frame:
  "invalidates_loop is s = (r, s') \<Longrightarrow>
     s_thoughts s' = s_thoughts s \<and> s_branches s' = s_branches s
     \<and> s_unresolved_refs s' = s_unresolved_refs s"
proof (induction "is" arbitrary: s)
  case Nil
  then show ?case by simp
next
  case (Cons i "is")
  then show ?case
    by (auto split: option.splits if_splits)
qed

lemma invalidates_loop_error_kind:
  "invalidates_loop is s = (Some e, s') \<Longrightarrow> kind_of e = UnknownAssumption"
proof (induction "is" arbitrary: s)
  case Nil
  then show ?case by simp
next
  case (Cons i "is")
  then show ?case
    by (auto split: option.splits if_splits)
qed


lemma depends_step_frame:
  "depends_step v t s = (r, s') \<Longrightarrow>
     s_thoughts s' = s_thoughts s \<and> s_branches s' = s_branches s
     \<and> s_assumptions s' = s_assumptions s
     \<and> s_cross_session_warnings s' = s_cross_session_warnings s"
  unfolding depends_step_def
  by (auto split: option.splits list.splits simp del: depends_loop.simps
      dest: depends_loop_frame)

lemma depends_step_error_kind:
  "depends_step v t s = (Some e, s') \<Longrightarrow> kind_of e = UnknownAssumption"
  unfolding depends_step_def
  by (auto split: option.splits list.splits simp del: depends_loop.simps
      dest: depends_loop_error_kind)

lemma assumptions_step_frame:
  "assumptions_step t s = (r, s') \<Longrightarrow>
     s_thoughts s' = s_thoughts s \<and> s_branches s' = s_branches s
     \<and> s_unresolved_refs s' = s_unresolved_refs s
     \<and> s_cross_session_warnings s' = s_cross_session_warnings s"
  unfolding assumptions_step_def
  by (auto split: option.splits list.splits simp del: assumptions_loop.simps
      dest: assumptions_loop_frame)

lemma assumptions_step_error_kind:
  "assumptions_step t s = (Some e, s') \<Longrightarrow> kind_of e = ImmutableFieldViolation"
  unfolding assumptions_step_def
  by (auto split: option.splits list.splits simp del: assumptions_loop.simps
      dest: assumptions_loop_error_kind)

lemma invalidates_step_frame:
  "invalidates_step t s = (r, s') \<Longrightarrow>
     s_thoughts s' = s_thoughts s \<and> s_branches s' = s_branches s
     \<and> s_unresolved_refs s' = s_unresolved_refs s"
  unfolding invalidates_step_def
  by (auto split: option.splits list.splits simp del: invalidates_loop.simps
      dest: invalidates_loop_frame)

lemma invalidates_step_error_kind:
  "invalidates_step t s = (Some e, s') \<Longrightarrow> kind_of e = UnknownAssumption"
  unfolding invalidates_step_def
  by (auto split: option.splits list.splits simp del: invalidates_loop.simps
      dest: invalidates_loop_error_kind)

subsection \<open>An aborted append\<close>



subsection \<open>The appended thought\<close>

lemma auto_adjust_total_fields [simp]:
  "is_revision (auto_adjust_total t) = is_revision t"
  "revises_thought (auto_adjust_total t) = revises_thought t"
  "branch_from_thought (auto_adjust_total t) = branch_from_thought t"
  "branch_id (auto_adjust_total t) = branch_id t"
  "thought_number (auto_adjust_total t) = thought_number t"
  "assumptions (auto_adjust_total t) = assumptions t"
  "depends_on_assumptions (auto_adjust_total t) = depends_on_assumptions t"
  "invalidates_assumptions (auto_adjust_total t) = invalidates_assumptions t"
  "total_thoughts (auto_adjust_total t) = max (thought_number t) (total_thoughts t)"
  "is_branch (auto_adjust_total t) = is_branch t"
  by (simp_all add: auto_adjust_total_def is_branch_def)

lemma append_thought_log [simp]:
  "s_thoughts (append_thought t s) = s_thoughts s @ [t]"
  by (simp add: append_thought_def Let_def)

lemma add_thought_success_log:
  assumes "add_thought s t v = (None, s')"
  shows "s_thoughts s' = s_thoughts s @ [auto_adjust_total t]"
proof -
  let ?t = "auto_adjust_total t"
  obtain r1 s1 where d: "depends_step v ?t s = (r1, s1)" by (cases "depends_step v ?t s")
  obtain r2 s2 where a: "assumptions_step ?t s1 = (r2, s2)" by (cases "assumptions_step ?t s1")
  obtain r3 s3 where i: "invalidates_step ?t s2 = (r3, s3)" by (cases "invalidates_step ?t s2")
  note fr = depends_step_frame [OF d] assumptions_step_frame [OF a] invalidates_step_frame [OF i]
  from assms d a i have "s' = append_thought ?t s3"
    by (auto simp: add_thought_def Let_def split: option.splits)
  with fr show ?thesis by simp
qed

subsection \<open>Reference validation\<close>

text \<open>
  C4, as the code has it. The revision check runs only for a thought flagged
  \<open>is_revision\<close>, the branch check only for a thought that is a branch (both
  \<open>branch_from_thought\<close> and \<open>branch_id\<close> present). With the log's thought numbers
  taken before the append: a flagged revision of a number that is not among them aborts
  the append with a DanglingReference citing that number, in its no-thoughts-yet variant
  exactly when the log is empty; otherwise a branch from a number that is not among them
  aborts likewise; otherwise the append raises no DanglingReference, and it succeeds when
  the thought names no assumptions.
\<close>

theorem add_thought_reference_check:
  "(is_revision t = Some True \<and> revises_thought t = Some n
      \<and> n \<notin> set (map thought_number (s_thoughts s))
     \<longrightarrow> add_thought s t v =
          (Some (if s_thoughts s = [] then ReviseNoThoughts n
                 else ReviseNotFound n (sort (remdups (map thought_number (s_thoughts s))))), s))
   \<and> (\<not> (is_revision t = Some True \<and> revises_thought t \<noteq> None
           \<and> the (revises_thought t) \<notin> set (map thought_number (s_thoughts s)))
       \<and> is_branch t \<and> branch_from_thought t = Some m
       \<and> m \<notin> set (map thought_number (s_thoughts s))
     \<longrightarrow> add_thought s t v =
          (Some (if s_thoughts s = [] then BranchNoThoughts m
                 else BranchNotFound m (sort (remdups (map thought_number (s_thoughts s))))), s))
   \<and> (\<not> (is_revision t = Some True \<and> revises_thought t \<noteq> None
           \<and> the (revises_thought t) \<notin> set (map thought_number (s_thoughts s)))
       \<and> \<not> (is_branch t
           \<and> the (branch_from_thought t) \<notin> set (map thought_number (s_thoughts s)))
     \<longrightarrow> (\<forall>e s'. add_thought s t v = (Some e, s') \<longrightarrow> kind_of e \<noteq> DanglingReference)
        \<and> (depends_on_assumptions t = None \<and> assumptions t = None
             \<and> invalidates_assumptions t = None
            \<longrightarrow> add_thought s t v = (None, append_thought (auto_adjust_total t) s)))"
proof (intro conjI impI allI)
  assume "is_revision t = Some True \<and> revises_thought t = Some n
      \<and> n \<notin> set (map thought_number (s_thoughts s))"
  then show "add_thought s t v =
          (Some (if s_thoughts s = [] then ReviseNoThoughts n
                 else ReviseNotFound n (sort (remdups (map thought_number (s_thoughts s))))), s)"
    by (simp add: add_thought_def Let_def validate_references_def)
next
  assume "\<not> (is_revision t = Some True \<and> revises_thought t \<noteq> None
           \<and> the (revises_thought t) \<notin> set (map thought_number (s_thoughts s)))
       \<and> is_branch t \<and> branch_from_thought t = Some m
       \<and> m \<notin> set (map thought_number (s_thoughts s))"
  then show "add_thought s t v =
          (Some (if s_thoughts s = [] then BranchNoThoughts m
                 else BranchNotFound m (sort (remdups (map thought_number (s_thoughts s))))), s)"
    by (auto simp: add_thought_def Let_def validate_references_def)
next
  fix e s'
  assume ok: "\<not> (is_revision t = Some True \<and> revises_thought t \<noteq> None
           \<and> the (revises_thought t) \<notin> set (map thought_number (s_thoughts s)))
       \<and> \<not> (is_branch t
           \<and> the (branch_from_thought t) \<notin> set (map thought_number (s_thoughts s)))"
    and ab: "add_thought s t v = (Some e, s')"
  let ?t = "auto_adjust_total t"
  from ok have vr: "validate_references ?t (map thought_number (s_thoughts s)) = None"
    by (auto simp: validate_references_def)
  obtain r1 s1 where d: "depends_step v ?t s = (r1, s1)" by (cases "depends_step v ?t s")
  obtain r2 s2 where a: "assumptions_step ?t s1 = (r2, s2)" by (cases "assumptions_step ?t s1")
  obtain r3 s3 where i: "invalidates_step ?t s2 = (r3, s3)" by (cases "invalidates_step ?t s2")
  from ab vr d a i have "(r1 = Some e) \<or> (r2 = Some e) \<or> (r3 = Some e)"
    by (auto simp: add_thought_def Let_def split: option.splits)
  with d a i show "kind_of e \<noteq> DanglingReference"
    by (auto dest: depends_step_error_kind assumptions_step_error_kind
        invalidates_step_error_kind)
next
  assume ok: "\<not> (is_revision t = Some True \<and> revises_thought t \<noteq> None
           \<and> the (revises_thought t) \<notin> set (map thought_number (s_thoughts s)))
       \<and> \<not> (is_branch t
           \<and> the (branch_from_thought t) \<notin> set (map thought_number (s_thoughts s)))"
    and nl: "depends_on_assumptions t = None \<and> assumptions t = None
             \<and> invalidates_assumptions t = None"
  from ok have vr: "validate_references (auto_adjust_total t)
      (map thought_number (s_thoughts s)) = None"
    by (auto simp: validate_references_def)
  with nl show "add_thought s t v = (None, append_thought (auto_adjust_total t) s)"
    by (simp add: add_thought_def Let_def depends_step_def assumptions_step_def
        invalidates_step_def)
qed

text \<open>
  A revision in an empty session, a branch from the missing thought 5, and a branch from
  the present thought 1.
\<close>

lemma demo_s1_numbers: "map thought_number (s_thoughts demo_s1) = [1]"
  by code_simp

theorem add_thought_reference_check_witness:
  "add_thought new_session demo_revision None = (Some (ReviseNoThoughts 1), new_session)
   \<and> add_thought demo_s1 demo_branch_missing None = (Some (BranchNotFound 5 [1]), demo_s1)
   \<and> add_thought demo_s1 demo_branch_ok None
        = (None, append_thought (auto_adjust_total demo_branch_ok) demo_s1)
   \<and> branch_ids (snd (add_thought demo_s1 demo_branch_ok None)) = [''alt'']"
proof -
  have 1: "add_thought new_session demo_revision None = (Some (ReviseNoThoughts 1), new_session)"
    using add_thought_reference_check
      [where t = demo_revision and n = 1 and s = new_session and v = None and m = 0]
    by (simp add: demo_revision_def mk_thought_def new_session_def)
  have 2: "add_thought demo_s1 demo_branch_missing None = (Some (BranchNotFound 5 [1]), demo_s1)"
    using add_thought_reference_check
      [where t = demo_branch_missing and n = 0 and s = demo_s1 and v = None and m = 5]
      demo_s1_numbers
    by (auto simp: demo_branch_missing_def mk_thought_def is_branch_def)
  have 3: "add_thought demo_s1 demo_branch_ok None
        = (None, append_thought (auto_adjust_total demo_branch_ok) demo_s1)"
    using add_thought_reference_check
      [where t = demo_branch_ok and n = 0 and s = demo_s1 and v = None and m = 0]
      demo_s1_numbers
    by (auto simp: demo_branch_ok_def mk_thought_def is_branch_def)
  have 4: "branch_ids (append_thought (auto_adjust_total demo_branch_ok) demo_s1) = [''alt'']"
    by code_simp
  from 1 2 3 4 show ?thesis by simp
qed


text \<open>
  C4 as stated fails: \<open>revises_thought = 7\<close> without the \<open>is_revision\<close> flag, and
  \<open>branch_from_thought = 7\<close> without a \<open>branch_id\<close>, are appended to a session
  whose only thought is number 1.
\<close>

theorem unflagged_reference_counterexample:
  "revises_thought demo_unflagged = Some 7
   \<and> branch_from_thought demo_half_branch = Some 7
   \<and> map thought_number (s_thoughts demo_s1) = [1]
   \<and> fst (add_thought demo_s1 demo_unflagged None) = None
   \<and> fst (add_thought demo_s1 demo_half_branch None) = None"
  by code_simp

subsection \<open>total_thoughts\<close>

text \<open>
  C5, as the code has it. \<open>total_thoughts\<close> is a field of each thought, adjusted on its
  own: the thought a successful append adds to the log keeps its number and carries
  \<open>max(thought_number, total_thoughts)\<close>, which is at least its own number and at least
  the total it was given.
\<close>

theorem add_thought_total_adjusted:
  assumes "add_thought s t v = (None, s')"
  shows "s_thoughts s' = s_thoughts s @ [auto_adjust_total t]
     \<and> total_thoughts (last (s_thoughts s')) = max (thought_number t) (total_thoughts t)
     \<and> thought_number (last (s_thoughts s')) = thought_number t
     \<and> thought_number t \<le> total_thoughts (last (s_thoughts s'))
     \<and> total_thoughts t \<le> total_thoughts (last (s_thoughts s'))"
  using add_thought_success_log [OF assms] by simp

text \<open>Thought 5 with a total of 3, appended after thought 1.\<close>

theorem add_thought_total_adjusted_witness:
  "fst (add_thought demo_s1 (mk_thought ''T5'' 5 3 True) None) = None
   \<and> map total_thoughts (s_thoughts (snd (add_thought demo_s1 (mk_thought ''T5'' 5 3 True) None)))
       = [3, 5]"
proof -
  have e: "fst (add_thought demo_s1 (mk_thought ''T5'' 5 3 True) None) = None"
    by code_simp
  then have h: "add_thought demo_s1 (mk_thought ''T5'' 5 3 True) None
      = (None, snd (add_thought demo_s1 (mk_thought ''T5'' 5 3 True) None))"
    by (metis prod.collapse)
  have l: "map total_thoughts (s_thoughts demo_s1) = [3]"
    by code_simp
  from add_thought_total_adjusted [OF h] e l show ?thesis
    by (simp add: mk_thought_def)
qed

text \<open>
  C5 as stated fails: after thought 5, a thought numbered 1 with a total of 1 is appended
  with \<open>total_thoughts = 1\<close>, below the 5 before it and below the largest number
  appended.
\<close>

theorem total_thoughts_decreases_counterexample:
  "map thought_number (s_thoughts (snd (add_thought
      (snd (add_thought new_session (mk_thought ''a'' 5 1 True) None))
      (mk_thought ''b'' 1 1 False) None))) = [5, 1]
   \<and> map total_thoughts (s_thoughts (snd (add_thought
      (snd (add_thought new_session (mk_thought ''a'' 5 1 True) None))
      (mk_thought ''b'' 1 1 False) None))) = [5, 1]"
  by code_simp

subsection \<open>Declaring an assumption\<close>

lemma keys_map_entry [simp]: "map fst (AList.map_entry k f al) = map fst al"
  by (induction al) auto

lemma append_thought_registry [simp]:
  "s_assumptions (append_thought t s) = s_assumptions s"
  by (simp add: append_thought_def Let_def)




subsection \<open>The stages of add_thought\<close>



lemma parse_unscoped: "fst (parse_assumption_id aid) = None \<longleftrightarrow> CHR '':'' \<notin> set aid"
  by (simp add: parse_assumption_id_def)
















lemma append_thought_warnings [simp]:
  "s_cross_session_warnings (append_thought t s) = s_cross_session_warnings s"
  by (simp add: append_thought_def Let_def)

lemma append_thought_unresolved [simp]:
  "s_unresolved_refs (append_thought t s) = s_unresolved_refs s"
  by (simp add: append_thought_def Let_def)







subsection \<open>Invalidating assumptions\<close>



section \<open>Verification of the storage\<close>

lemma valid_s1: "session_file_path ''s1'' = Inr ''s1.json''"
  by (simp add: session_file_path_def validate_session_id_def session_id_pattern_match_def
      session_id_char_def)

lemma valid_invalid: "session_file_path ''invalid'' = Inr ''invalid.json''"
  by (simp add: session_file_path_def validate_session_id_def session_id_pattern_match_def
      session_id_char_def)

subsection \<open>Session identifiers\<close>

text \<open>
  What the validation accepts: at most 128 characters that are either a non-empty run of
  letters, digits, hyphens and underscores, or such a run followed by one newline.
\<close>


lemma newline_not_id_char: "\<not> session_id_char (CHR 0x0A)"
  by (simp add: session_id_char_def)

lemma session_id_pattern_match_iff:
  "session_id_pattern_match s \<longleftrightarrow>
     (s \<noteq> [] \<and> list_all session_id_char s)
     \<or> (\<exists>t. s = t @ [CHR 0x0A] \<and> t \<noteq> [] \<and> list_all session_id_char t)"
proof
  assume m: "session_id_pattern_match s"
  let ?run = "takeWhile session_id_char s" and ?rest = "dropWhile session_id_char s"
  from m have run: "?run \<noteq> []" and rest: "?rest = [] \<or> ?rest = [CHR 0x0A]"
    by (simp_all add: session_id_pattern_match_def Let_def)
  have split: "s = ?run @ ?rest" by simp
  have all: "list_all session_id_char ?run"
    by (auto simp: list_all_iff dest: set_takeWhileD)
  from rest show "(s \<noteq> [] \<and> list_all session_id_char s)
     \<or> (\<exists>t. s = t @ [CHR 0x0A] \<and> t \<noteq> [] \<and> list_all session_id_char t)"
  proof
    assume "?rest = []"
    with split have "s = ?run" by simp
    with run all show ?thesis by metis
  next
    assume "?rest = [CHR 0x0A]"
    with split have "s = ?run @ [CHR 0x0A]" by simp
    with run all show ?thesis by blast
  qed
next
  assume "(s \<noteq> [] \<and> list_all session_id_char s)
     \<or> (\<exists>t. s = t @ [CHR 0x0A] \<and> t \<noteq> [] \<and> list_all session_id_char t)"
  then show "session_id_pattern_match s"
  proof
    assume a: "s \<noteq> [] \<and> list_all session_id_char s"
    then have tw: "takeWhile session_id_char s = s"
      and dw: "dropWhile session_id_char s = []"
      by (simp_all add: list_all_iff takeWhile_eq_all_conv)
    show ?thesis
      unfolding session_id_pattern_match_def Let_def tw dw using a by simp
  next
    assume "\<exists>t. s = t @ [CHR 0x0A] \<and> t \<noteq> [] \<and> list_all session_id_char t"
    then obtain t where t: "s = t @ [CHR 0x0A]" "t \<noteq> []" "list_all session_id_char t"
      by blast
    then show ?thesis
      using newline_not_id_char
      by (simp add: session_id_pattern_match_def Let_def list_all_iff
          takeWhile_append2 dropWhile_append2)
  qed
qed

lemma validate_session_id_accepts:
  "validate_session_id s = None \<longleftrightarrow>
     length s \<le> 128
     \<and> ((s \<noteq> [] \<and> list_all session_id_char s)
        \<or> (\<exists>t. s = t @ [CHR 0x0A] \<and> t \<noteq> [] \<and> list_all session_id_char t))"
  by (auto simp: validate_session_id_def session_id_pattern_match_iff)

text \<open>
  C3 says that an identifier with any character other than an ASCII letter, a digit, a
  hyphen or an underscore is rejected on the save path and on the load path. The code
  accepts \<open>abc\<close> followed by a newline: the validation returns, the file name is built
  from it, \<open>save_session\<close> writes that file and \<open>load_session\<close> looks for it.
\<close>

theorem newline_session_id_accepted:
  "validate_session_id newline_id = None
   \<and> \<not> session_id_char (last newline_id)
   \<and> session_file_path newline_id = Inr (newline_id @ ''.json'')
   \<and> save_session [] newline_id new_session
        = Inr [(newline_id @ ''.json'', Doc (session_data new_session))]
   \<and> load_session loads [] newline_id = Inr None"
  by (simp add: newline_id_def session_file_path_def validate_session_id_def
      session_id_pattern_match_def session_id_char_def save_session_def load_session_def)

subsection \<open>Loading a damaged record\<close>

text \<open>
  C2 says that \<open>load_session\<close> returns absent, and never raises, for a record whose
  \<open>thoughts\<close> field is not a list or whose mapping field has another shape. For the
  record \<open>{"thoughts": "not_a_list"}\<close> of the repository's own test, and for
  \<open>{"assumptions": []}\<close>, the code raises \<open>AttributeError\<close>, which its \<open>except\<close>
  clause does not catch.
\<close>

theorem load_session_raises_attribute_error:
  "load_session loads not_a_list_files ''invalid'' = Inl AttributeError
   \<and> load_session loads list_registry_files ''invalid'' = Inl AttributeError"
  by (simp add: load_session_def valid_invalid not_a_list_files_def list_registry_files_def
      reconstruct_def rebuild_assumptions_def)

subsection \<open>Saving and loading\<close>

lemma demo_s_dep_eq:
  "demo_s_dep = \<lparr>s_thoughts = [demo_dep], s_branches = [], s_assumptions = [],
                 s_unresolved_refs = [''other:A1''], s_cross_session_warnings = []\<rparr>"
  by code_simp

text \<open>
  C1 says that loading what was saved gives a session with the same thought count. The
  session made by appending one thought that depends on \<open>other:A1\<close> has one thought;
  it is saved under \<open>s1\<close>; loading \<open>s1\<close> returns \<open>None\<close>, because the constructor of
  \<open>Thought\<close> raises \<open>TypeError\<close> on the list it is given and \<open>load_session\<close> takes that
  for a damaged record.
\<close>

theorem saved_session_loads_as_absent:
  "fst (add_thought new_session demo_dep None) = None
   \<and> thought_count demo_s_dep = 1
   \<and> save_session [] ''s1'' demo_s_dep = Inr demo_files
   \<and> load_session loads demo_files ''s1'' = Inr None"
proof -
  have 1: "fst (add_thought new_session demo_dep None) = None" by code_simp
  have 2: "thought_count demo_s_dep = 1" by (simp add: demo_s_dep_eq thought_count_def)
  have 3: "save_session [] ''s1'' demo_s_dep = Inr demo_files"
    by (simp add: save_session_def valid_s1 demo_files_def)
  have 4: "load_session loads demo_files ''s1'' = Inr None"
    by (simp add: load_session_def valid_s1 demo_files_def demo_s_dep_eq session_data_def
        reconstruct_def new_session_def dump_thought_def demo_dep_def mk_thought_def
        opt_val_def rebuild_assumptions_def Thought_init_def before_list_def
        parse_json_list_def)
  from 1 2 3 4 show ?thesis by simp
qed

section \<open>Verification of the service\<close>

subsection \<open>Numbering a thought\<close>

lemma Thought_init_thought_data:
  assumes "Thought_init loads (thought_data request n nxt) = Inr t"
  shows "thought_number t = n \<and> next_thought_needed t = nxt
         \<and> total_thoughts t = r_total_thoughts request"
proof -
  from assms have
    "required (thought_data request n nxt) ''thought_number'' int_ge1 = Some (thought_number t)
     \<and> required (thought_data request n nxt) ''total_thoughts'' int_ge1
          = Some (total_thoughts t)
     \<and> required (thought_data request n nxt) ''next_thought_needed'' strict_bool
          = Some (next_thought_needed t)"
    by (auto simp: Thought_init_def Let_def bind_eq_Some_conv
        split: if_splits option.splits)
  then show ?thesis
    by (auto simp: required_def thought_data_def int_ge1_def split: if_splits)
qed

lemma process_thought_success:
  assumes "process_thought loads new_id cache files request = (Inr resp, cache', files')"
  obtains session_id session cache1 validated cache2 t session1 where
    "get_or_create_session loads new_id cache files (r_session_id request)
       = Inr (session_id, session, cache1)"
    "Thought_init loads (thought_data request (assigned_number request session)
        (case r_next_thought_needed request of
           None \<Rightarrow> assigned_number request session < r_total_thoughts request
         | Some b \<Rightarrow> b)) = Inr t"
    "add_thought session t (Some validated) = (None, session1)"
    "save_session files session_id session1 = Inr files'"
    "resp = response session_id (auto_adjust_total t) session1"
    "cache' = AList.update session_id session1 cache2"
  using assms
  unfolding process_thought_def Let_def assigned_number_def
  by (auto split: sum.splits prod.splits option.splits)

text \<open>
  C10: whenever \<open>process_thought\<close> returns a response, the session it obtained for the
  request exists, and the thought number of the response is the request's, or, when the
  request gives none, the thought count of that session plus one; the flag
  \<open>next_thought_needed\<close> of the response is the request's, or, when the request gives
  none, whether that thought number is below the request's \<open>total_thoughts\<close>. The
  thought appended to the cached session carries the same two values.
\<close>

theorem process_thought_defaults:
  assumes "process_thought loads new_id cache files request = (Inr resp, cache', files')"
  shows "\<exists>session_id session cache1.
           get_or_create_session loads new_id cache files (r_session_id request)
             = Inr (session_id, session, cache1)
           \<and> resp_thought_number resp =
               (case r_thought_number request of
                  None \<Rightarrow> int (thought_count session) + 1
                | Some k \<Rightarrow> k)
           \<and> resp_next_thought_needed resp =
               (case r_next_thought_needed request of
                  None \<Rightarrow> resp_thought_number resp < r_total_thoughts request
                | Some b \<Rightarrow> b)
           \<and> (\<exists>session1. map_of cache' session_id = Some session1
                 \<and> thought_count session1 = thought_count session + 1
                 \<and> thought_number (last (s_thoughts session1)) = resp_thought_number resp
                 \<and> next_thought_needed (last (s_thoughts session1))
                     = resp_next_thought_needed resp)"
  using assms
proof (cases rule: process_thought_success)
  case (1 session_id session cache1 validated cache2 t session1)
  from Thought_init_thought_data [OF 1(2)]
  have t: "thought_number t = assigned_number request session"
    "next_thought_needed t =
       (case r_next_thought_needed request of
          None \<Rightarrow> assigned_number request session < r_total_thoughts request
        | Some b \<Rightarrow> b)"
    by simp_all
  from add_thought_success_log [OF 1(3)]
  have log: "s_thoughts session1 = s_thoughts session @ [auto_adjust_total t]" .
  have "map_of cache' session_id = Some session1"
    by (simp add: 1(6) update_conv')
  with 1(1,5) t log show ?thesis
    by (cases "r_thought_number request"; cases "r_next_thought_needed request")
       (simp_all add: response_def assigned_number_def thought_count_def auto_adjust_total_def)
qed

text \<open>
  A first request that leaves both fields out, and one that gives the number 3 and the
  flag \<open>False\<close>.
\<close>

theorem process_thought_defaults_witness:
  "(\<exists>resp cache' files'.
      process_thought (\<lambda>s. None) ''u1'' [] [] demo_request = (Inr resp, cache', files')
      \<and> resp_thought_number resp = 1 \<and> resp_next_thought_needed resp = True)
   \<and> (\<exists>resp cache' files'.
      process_thought (\<lambda>s. None) ''u1'' [] [] demo_request_explicit = (Inr resp, cache', files')
      \<and> resp_thought_number resp = 3 \<and> resp_next_thought_needed resp = False)"
proof -
  have g: "get_or_create_session (\<lambda>s. None) ''u1'' [] [] None
      = Inr (''u1'', new_session, [(''u1'', new_session)])"
    by (simp add: get_or_create_session_def)
  have c: "thought_count new_session = 0"
    by (simp add: thought_count_def new_session_def)
  have "\<not> isl (fst (process_thought (\<lambda>s. None) ''u1'' [] [] demo_request))"
    by code_simp
  then obtain resp where "fst (process_thought (\<lambda>s. None) ''u1'' [] [] demo_request) = Inr resp"
    by (cases "fst (process_thought (\<lambda>s. None) ''u1'' [] [] demo_request)") auto
  then have run: "process_thought (\<lambda>s. None) ''u1'' [] [] demo_request
      = (Inr resp, fst (snd (process_thought (\<lambda>s. None) ''u1'' [] [] demo_request)),
         snd (snd (process_thought (\<lambda>s. None) ''u1'' [] [] demo_request)))"
    by (metis prod.collapse)
  from process_thought_defaults [OF run] g c
  have "resp_thought_number resp = 1 \<and> resp_next_thought_needed resp = True"
    by (auto simp: demo_request_def mk_request_def)
  with run have 1: "\<exists>resp cache' files'.
      process_thought (\<lambda>s. None) ''u1'' [] [] demo_request = (Inr resp, cache', files')
      \<and> resp_thought_number resp = 1 \<and> resp_next_thought_needed resp = True"
    by blast
  have "\<not> isl (fst (process_thought (\<lambda>s. None) ''u1'' [] [] demo_request_explicit))"
    by code_simp
  then obtain resp2 where
    "fst (process_thought (\<lambda>s. None) ''u1'' [] [] demo_request_explicit) = Inr resp2"
    by (cases "fst (process_thought (\<lambda>s. None) ''u1'' [] [] demo_request_explicit)") auto
  then have run2: "process_thought (\<lambda>s. None) ''u1'' [] [] demo_request_explicit
      = (Inr resp2, fst (snd (process_thought (\<lambda>s. None) ''u1'' [] [] demo_request_explicit)),
         snd (snd (process_thought (\<lambda>s. None) ''u1'' [] [] demo_request_explicit)))"
    by (metis prod.collapse)
  from process_thought_defaults [OF run2]
  have "resp_thought_number resp2 = 3 \<and> resp_next_thought_needed resp2 = False"
    by (auto simp: demo_request_explicit_def mk_request_def)
  with run2 have 2: "\<exists>resp cache' files'.
      process_thought (\<lambda>s. None) ''u1'' [] [] demo_request_explicit
        = (Inr resp, cache', files')
      \<and> resp_thought_number resp = 3 \<and> resp_next_thought_needed resp = False"
    by blast
  from 1 2 show ?thesis by blast
qed

subsection \<open>Scoped dependencies\<close>

















end
